theory Spec2Isabelle
  imports Main
begin

section \<open>Python values and the operations the engine applies to them\<close>

text \<open>
  The engine of \<^verbatim>\<open>structured_search_engine.py\<close> handles untyped Python
  values: the query it builds, the response of the store, the documents of the crawler.
  They are modelled by one datatype. A dict is an association list with string keys, in
  insertion order. Floating-point values are left out. The calls to the logger have no
  part in what the engine returns or sends to its collaborators and are not modelled.
\<close>

datatype pyval =
    PNone
  | PBool bool
  | PInt int
  | PStr string
  | PList "pyval list"
  | PDict "(string \<times> pyval) list"

text \<open>
  The exceptions that are instances of Python's \<^verbatim>\<open>Exception\<close>, which is what
  \<^verbatim>\<open>except Exception\<close> catches. \<open>KeyError\<close>, \<open>TypeError\<close> and
  \<open>AttributeError\<close> are raised by the interpreter; \<open>ExternalError\<close> stands for
  whatever the store, the crawler or a ranking model raises.
\<close>

datatype py_exception =
    KeyError string
  | TypeError
  | AttributeError
  | ExternalError string

text \<open>Truthiness, as \<^verbatim>\<open>if x:\<close> tests it.\<close>

fun py_truthy :: "pyval \<Rightarrow> bool" where
  "py_truthy PNone = False"
| "py_truthy (PBool b) = b"
| "py_truthy (PInt i) = (i \<noteq> 0)"
| "py_truthy (PStr s) = (s \<noteq> [])"
| "py_truthy (PList xs) = (xs \<noteq> [])"
| "py_truthy (PDict kvs) = (kvs \<noteq> [])"

text \<open>
  \<^verbatim>\<open>x[key]\<close> with a string key: a dict without the key raises KeyError, and none of
  the other values can be subscripted by a string.
\<close>

fun py_getitem :: "pyval \<Rightarrow> string \<Rightarrow> py_exception + pyval" where
  "py_getitem (PDict kvs) k =
     (case map_of kvs k of None \<Rightarrow> Inl (KeyError k) | Some v \<Rightarrow> Inr v)"
| "py_getitem _ k = Inl TypeError"

text \<open>\<^verbatim>\<open>x.get(key)\<close>: only a dict has the method; a missing key gives None.\<close>

fun py_get :: "pyval \<Rightarrow> string \<Rightarrow> py_exception + pyval" where
  "py_get (PDict kvs) k =
     (case map_of kvs k of None \<Rightarrow> Inr PNone | Some v \<Rightarrow> Inr v)"
| "py_get _ k = Inl AttributeError"

text \<open>\<^verbatim>\<open>len(x)\<close>.\<close>

fun py_len :: "pyval \<Rightarrow> py_exception + nat" where
  "py_len (PStr s) = Inr (length s)"
| "py_len (PList xs) = Inr (length xs)"
| "py_len (PDict kvs) = Inr (length kvs)"
| "py_len _ = Inl TypeError"

text \<open>
  \<^verbatim>\<open>for x in v\<close>: a list gives its elements, a dict its keys, a string its
  characters; nothing else is iterable.
\<close>

fun py_iter :: "pyval \<Rightarrow> py_exception + pyval list" where
  "py_iter (PList xs) = Inr xs"
| "py_iter (PDict kvs) = Inr (map (\<lambda>kv. PStr (fst kv)) kvs)"
| "py_iter (PStr s) = Inr (map (\<lambda>c. PStr [c]) s)"
| "py_iter _ = Inl TypeError"

text \<open>\<^verbatim>\<open>d[k] = v\<close> on a dict: an existing key keeps its place, a new one goes last.\<close>

fun dict_set :: "(string \<times> pyval) list \<Rightarrow> string \<Rightarrow> pyval \<Rightarrow> (string \<times> pyval) list" where
  "dict_set [] k v = [(k, v)]"
| "dict_set ((k', v') # kvs) k v =
     (if k' = k then (k, v) # kvs else (k', v') # dict_set kvs k v)"

text \<open>
  \<^verbatim>\<open>xs[:n]\<close> for an integer \<open>n\<close>: the first \<open>n\<close> elements, and for a negative
  \<open>n\<close> all but the last \<open>-n\<close>.
\<close>

definition py_slice_to :: "'a list \<Rightarrow> int \<Rightarrow> 'a list" where
  "py_slice_to xs n =
     (if 0 \<le> n then take (nat n) xs else take (nat (int (length xs) + n)) xs)"

section \<open>Requests and collaborators\<close>

text \<open>
  Modelled from the spec: the enum \<^verbatim>\<open>SortType\<close> of \<^verbatim>\<open>protocol.py\<close>, which is
  not among the sources ("an optional sort_type (enum: RELEVANCE | RECENCY)").
\<close>

datatype SortType = RELEVANCE | RECENCY

text \<open>
  Modelled from the spec: the request object, whose classes live in
  \<^verbatim>\<open>protocol.py\<close>. The engine reads the attributes below and nothing else;
  \<open>name\<close> tells the structured variant (\<^verbatim>\<open>"StructuredSearchSynapse"\<close>) from
  the basic one. The two time bounds are kept as Python values, since the engine tests
  them by truthiness; \<open>PNone\<close> is an undeclared bound.
\<close>

record search_query =
  name :: string
  query_string :: string
  size_q :: int
  sort_type :: "SortType option"
  earlier_than_timestamp :: pyval
  later_than_timestamp :: pyval

text \<open>
  The store client, the ranking models and the crawler are objects supplied from outside.
  Each method is a function on the state of the outside world \<open>'w\<close>: it returns a
  value or raises, and leaves a new state.
\<close>

type_synonym ('w, 'a) effect = "'w \<Rightarrow> (py_exception + 'a) \<times> 'w"

record 'w search_client =
  indices_exists :: "string \<Rightarrow> ('w, bool) effect"
  indices_create :: "string \<Rightarrow> pyval \<Rightarrow> ('w, pyval) effect"
  client_search :: "string \<Rightarrow> pyval \<Rightarrow> ('w, pyval) effect"
  bulk :: "pyval \<Rightarrow> bool \<Rightarrow> ('w, pyval) effect"

type_synonym 'w ranking_model = "string \<Rightarrow> pyval list \<Rightarrow> ('w, pyval list) effect"

type_synonym 'w crawler = "string \<Rightarrow> int \<Rightarrow> ('w, pyval) effect"

text \<open>The attributes of \<^verbatim>\<open>StructuredSearchEngine\<close> set by \<^verbatim>\<open>__init__\<close>.\<close>

record 'w engine =
  search_client :: "'w search_client"
  relevance_ranking_model :: "'w ranking_model"
  recency_ranking_model :: "'w ranking_model"
  recall_size :: int
  twitter_crawler :: "'w crawler option"

section \<open>The engine\<close>

subsection \<open>twitter_doc_mapper\<close>

definition doc_fields :: "string list" where
  "doc_fields = [''id'', ''text'', ''created_at'', ''username'', ''url'',
     ''quote_count'', ''reply_count'', ''retweet_count'', ''favorite_count'']"

text \<open>
  The dict display evaluates \<^verbatim>\<open>doc["id"]\<close>, \<^verbatim>\<open>doc["text"]\<close>, ... from left
  to right; the first subscript that raises ends it.
\<close>

fun project_fields :: "pyval \<Rightarrow> string list \<Rightarrow> py_exception + (string \<times> pyval) list" where
  "project_fields doc [] = Inr []"
| "project_fields doc (f # fs) =
     (case py_getitem doc f of
        Inl e \<Rightarrow> Inl e
      | Inr v \<Rightarrow> (case project_fields doc fs of
                   Inl e \<Rightarrow> Inl e
                 | Inr kvs \<Rightarrow> Inr ((f, v) # kvs)))"

definition twitter_doc_mapper :: "pyval \<Rightarrow> py_exception + pyval" where
  "twitter_doc_mapper doc =
     (case project_fields doc doc_fields of Inl e \<Rightarrow> Inl e | Inr kvs \<Rightarrow> Inr (PDict kvs))"

subsection \<open>init_indices\<close>

definition twitter_index_body :: pyval where
  "twitter_index_body =
     PDict [(''mappings'', PDict [(''properties'', PDict
       [(''id'', PDict [(''type'', PStr ''long'')]),
        (''text'', PDict [(''type'', PStr ''text'')]),
        (''created_at'', PDict [(''type'', PStr ''date'')]),
        (''username'', PDict [(''type'', PStr ''keyword'')]),
        (''url'', PDict [(''type'', PStr ''text'')]),
        (''quote_count'', PDict [(''type'', PStr ''long'')]),
        (''reply_count'', PDict [(''type'', PStr ''long'')]),
        (''retweet_count'', PDict [(''type'', PStr ''long'')]),
        (''favorite_count'', PDict [(''type'', PStr ''long'')])])])]"

definition init_indices :: "'w engine \<Rightarrow> ('w, unit) effect" where
  "init_indices self w =
     (let index_name = ''twitter'';
          (r, w1) = indices_exists (search_client self) index_name w
      in case r of
           Inl e \<Rightarrow> (Inl e, w1)
         | Inr ex \<Rightarrow>
             if \<not> ex then
               (let (c, w2) = indices_create (search_client self) index_name twitter_index_body w1
                in case c of Inl e \<Rightarrow> (Inl e, w2) | Inr _ \<Rightarrow> (Inr (), w2))
             else (Inr (), w1))"

subsection \<open>recall\<close>

text \<open>Lines 107 to 136 of \<^verbatim>\<open>recall\<close>: the query sent to the store.\<close>

definition query_string_clause :: "string \<Rightarrow> pyval" where
  "query_string_clause qs =
     PDict [(''query_string'', PDict
       [(''query'', PStr qs),
        (''default_field'', PStr ''text''),
        (''default_operator'', PStr ''AND'')])]"

definition es_query_of :: "search_query \<Rightarrow> int \<Rightarrow> pyval" where
  "es_query_of search_query rsize =
     (let must0 = [query_string_clause (query_string search_query)]
      in if name search_query = ''StructuredSearchSynapse'' then
           (let time_filter0 = [];
                time_filter1 =
                  (if py_truthy (earlier_than_timestamp search_query)
                   then dict_set time_filter0 ''lte'' (earlier_than_timestamp search_query)
                   else time_filter0);
                time_filter =
                  (if py_truthy (later_than_timestamp search_query)
                   then dict_set time_filter1 ''gte'' (later_than_timestamp search_query)
                   else time_filter1);
                must =
                  (if py_truthy (PDict time_filter)
                   then must0 @ [PDict [(''range'', PDict [(''created_at'', PDict time_filter)])]]
                   else must0);
                sort =
                  (if sort_type search_query = Some RECENCY
                   then [(''sort'', PList [PDict [(''created_at'', PStr ''desc'')]])]
                   else [])
            in PDict ([(''query'', PDict [(''bool'', PDict [(''must'', PList must)])]),
                       (''size'', PInt rsize)] @ sort))
         else
           PDict [(''query'', PDict [(''bool'', PDict [(''must'', PList must0)])]),
                  (''size'', PInt rsize)])"

text \<open>The loop over the hits: each hit's \<^verbatim>\<open>_source\<close> is projected and appended.\<close>

fun map_hits :: "pyval list \<Rightarrow> pyval list \<Rightarrow> py_exception + pyval list" where
  "map_hits [] results = Inr results"
| "map_hits (document # rest) results =
     (case py_getitem document ''_source'' of
        Inl e \<Rightarrow> Inl e
      | Inr doc \<Rightarrow> (case twitter_doc_mapper doc of
                     Inl e \<Rightarrow> Inl e
                   | Inr d \<Rightarrow> map_hits rest (results @ [d])))"

text \<open>The body of the \<^verbatim>\<open>try\<close> block of \<^verbatim>\<open>recall\<close>.\<close>

definition recall_try :: "'w engine \<Rightarrow> pyval \<Rightarrow> ('w, pyval list) effect" where
  "recall_try self es_query w =
     (let (r, w1) = client_search (search_client self) ''twitter'' es_query w
      in case r of
           Inl e \<Rightarrow> (Inl e, w1)
         | Inr response \<Rightarrow>
             (case py_getitem response ''hits'' of
                Inl e \<Rightarrow> (Inl e, w1)
              | Inr h \<Rightarrow>
                 (case py_getitem h ''hits'' of
                    Inl e \<Rightarrow> (Inl e, w1)
                  | Inr documents \<Rightarrow>
                     (case (if py_truthy documents then py_iter documents else Inr []) of
                        Inl e \<Rightarrow> (Inl e, w1)
                      | Inr ds \<Rightarrow> (map_hits ds [], w1)))))"

definition recall :: "'w engine \<Rightarrow> search_query \<Rightarrow> int \<Rightarrow> ('w, pyval list) effect" where
  "recall self search_query rsize w =
     (let es_query = es_query_of search_query rsize;
          (r, w1) = recall_try self es_query w
      in case r of
           Inl e \<Rightarrow> (Inr [], w1)
         | Inr results \<Rightarrow> (Inr results, w1))"

subsection \<open>search\<close>

definition search :: "'w engine \<Rightarrow> search_query \<Rightarrow> ('w, pyval list) effect" where
  "search self search_query w =
     (let result_size = size_q search_query;
          (rc, w1) = recall self search_query (recall_size self) w
      in case rc of
           Inl e \<Rightarrow> (Inl e, w1)
         | Inr recalled_items \<Rightarrow>
             (let ranking_model =
                    (if name search_query = ''StructuredSearchSynapse''
                        \<and> sort_type search_query = Some RECENCY
                     then recency_ranking_model self
                     else relevance_ranking_model self);
                  (rr, w2) = ranking_model (query_string search_query) recalled_items w1
              in case rr of
                   Inl e \<Rightarrow> (Inl e, w2)
                 | Inr results \<Rightarrow> (Inr (py_slice_to results result_size), w2)))"

subsection \<open>crawl_and_index_data\<close>

text \<open>
  The first \<^verbatim>\<open>try\<close> block. With no crawler, \<^verbatim>\<open>self.twitter_crawler.search\<close>
  is an attribute lookup on None, which raises AttributeError inside the block.
\<close>

definition crawl_try :: "'w engine \<Rightarrow> string \<Rightarrow> int \<Rightarrow> ('w, pyval) effect" where
  "crawl_try self qs max_size w =
     (case twitter_crawler self of
        None \<Rightarrow> (Inl AttributeError, w)
      | Some crawler_search \<Rightarrow>
          (let (r, w1) = crawler_search qs max_size w
           in case r of
                Inl e \<Rightarrow> (Inl e, w1)
              | Inr processed_docs \<Rightarrow>
                  (case py_len processed_docs of
                     Inl e \<Rightarrow> (Inl e, w1)
                   | Inr _ \<Rightarrow> (Inr processed_docs, w1))))"

text \<open>The loop that fills \<^verbatim>\<open>bulk_body\<close>: two entries for each document.\<close>

fun build_bulk_body :: "pyval list \<Rightarrow> pyval list \<Rightarrow> py_exception + pyval list" where
  "build_bulk_body [] bulk_body = Inr bulk_body"
| "build_bulk_body (doc # rest) bulk_body =
     (case py_getitem doc ''id'' of
        Inl e \<Rightarrow> Inl e
      | Inr i \<Rightarrow>
          build_bulk_body rest
            (bulk_body
             @ [PDict [(''update'', PDict [(''_index'', PStr ''twitter''), (''_id'', i)])]]
             @ [PDict [(''doc'', doc), (''doc_as_upsert'', PBool True)]]))"

text \<open>The body of the second \<^verbatim>\<open>try\<close> block.\<close>

definition bulk_try :: "'w engine \<Rightarrow> pyval \<Rightarrow> ('w, unit) effect" where
  "bulk_try self processed_docs w =
     (case py_iter processed_docs of
        Inl e \<Rightarrow> (Inl e, w)
      | Inr docs \<Rightarrow>
          (case build_bulk_body docs [] of
             Inl e \<Rightarrow> (Inl e, w)
           | Inr bulk_body \<Rightarrow>
               (let (r, w1) = bulk (search_client self) (PList bulk_body) True w
                in case r of
                     Inl e \<Rightarrow> (Inl e, w1)
                   | Inr resp \<Rightarrow>
                       (case py_get resp ''errors'' of
                          Inl e \<Rightarrow> (Inl e, w1)
                        | Inr _ \<Rightarrow> (Inr (), w1)))))"

definition crawl_and_index_data :: "'w engine \<Rightarrow> string \<Rightarrow> int \<Rightarrow> ('w, unit) effect" where
  "crawl_and_index_data self qs max_size w =
     (let (c, w1) = crawl_try self qs max_size w;
          processed_docs = (case c of Inl e \<Rightarrow> PList [] | Inr ds \<Rightarrow> ds)
      in case py_len processed_docs of
           Inl e \<Rightarrow> (Inl e, w1)
         | Inr n \<Rightarrow>
             if n > 0 then
               (let (b, w2) = bulk_try self processed_docs w1
                in case b of Inl e \<Rightarrow> (Inr (), w2) | Inr _ \<Rightarrow> (Inr (), w2))
             else (Inr (), w1))"

section \<open>The bulk body the specification describes\<close>

text \<open>
  For each document the specification pairs an update directive, keyed by the document's
  id on the index \<^verbatim>\<open>twitter\<close>, with a body holding the document and
  \<^verbatim>\<open>doc_as_upsert\<close>. This is the specification's side of the comparison with
  \<open>build_bulk_body\<close>.
\<close>

definition doc_id :: "pyval \<Rightarrow> pyval" where
  "doc_id d = (case py_getitem d ''id'' of Inl e \<Rightarrow> PNone | Inr i \<Rightarrow> i)"

definition upsert_pair :: "pyval \<Rightarrow> pyval list" where
  "upsert_pair d =
     [PDict [(''update'', PDict [(''_index'', PStr ''twitter''), (''_id'', doc_id d)])],
      PDict [(''doc'', d), (''doc_as_upsert'', PBool True)]]"

section \<open>Collaborators that record their calls\<close>

text \<open>
  A concrete outside world for running the engine: the state is the list of calls made
  so far. The store knows an index once it has been created, answers every search and
  every bulk write with a fixed response, and refuses to create an index twice.
\<close>

datatype event =
    Created string pyval
  | Searched string pyval
  | Bulked pyval bool
  | Crawled string int
  | Ranked string string "pyval list"

fun index_created :: "string \<Rightarrow> event list \<Rightarrow> bool" where
  "index_created n [] = False"
| "index_created n (Created m b # es) = (m = n \<or> index_created n es)"
| "index_created n (_ # es) = index_created n es"

definition logging_client ::
  "(py_exception + pyval) \<Rightarrow> (py_exception + pyval) \<Rightarrow> event list search_client" where
  "logging_client search_response bulk_response =
     \<lparr>indices_exists = (\<lambda>n w. (Inr (index_created n w), w)),
      indices_create = (\<lambda>n b w.
         if index_created n w then (Inl (ExternalError ''resource_already_exists''), w)
         else (Inr PNone, w @ [Created n b])),
      client_search = (\<lambda>i q w. (search_response, w @ [Searched i q])),
      bulk = (\<lambda>b r w. (bulk_response, w @ [Bulked b r]))\<rparr>"

definition logging_ranker ::
  "string \<Rightarrow> (pyval list \<Rightarrow> py_exception + pyval list) \<Rightarrow> event list ranking_model" where
  "logging_ranker tag f qs items w = (f items, w @ [Ranked tag qs items])"

definition logging_crawler :: "(py_exception + pyval) \<Rightarrow> event list crawler" where
  "logging_crawler r qs n w = (r, w @ [Crawled qs n])"

definition test_engine ::
  "(py_exception + pyval) \<Rightarrow> (py_exception + pyval)
   \<Rightarrow> (pyval list \<Rightarrow> py_exception + pyval list) \<Rightarrow> event list crawler option
   \<Rightarrow> event list engine" where
  "test_engine search_response bulk_response relevance crawler =
     \<lparr>search_client = logging_client search_response bulk_response,
      relevance_ranking_model = logging_ranker ''relevance'' relevance,
      recency_ranking_model = logging_ranker ''recency'' (\<lambda>items. Inr (rev items)),
      recall_size = 50,
      twitter_crawler = crawler\<rparr>"

definition projected :: "int \<Rightarrow> pyval" where
  "projected i =
     PDict [(''id'', PInt i), (''text'', PStr ''alpha''), (''created_at'', PInt (86400 * i)),
            (''username'', PStr ''u''), (''url'', PStr ''x''), (''quote_count'', PInt 0),
            (''reply_count'', PInt 0), (''retweet_count'', PInt 0),
            (''favorite_count'', PInt 0)]"

definition tweet :: "int \<Rightarrow> pyval" where
  "tweet i =
     PDict [(''id'', PInt i), (''text'', PStr ''alpha''), (''created_at'', PInt (86400 * i)),
            (''username'', PStr ''u''), (''url'', PStr ''x''), (''quote_count'', PInt 0),
            (''reply_count'', PInt 0), (''retweet_count'', PInt 0),
            (''favorite_count'', PInt 0), (''lang'', PStr ''en'')]"

definition hit :: "pyval \<Rightarrow> pyval" where
  "hit src = PDict [(''_index'', PStr ''twitter''), (''_source'', src)]"

definition hits_response :: "pyval list \<Rightarrow> pyval" where
  "hits_response hs = PDict [(''took'', PInt 1), (''hits'', PDict [(''hits'', PList hs)])]"

definition basic_query :: "int \<Rightarrow> search_query" where
  "basic_query n =
     \<lparr>name = ''SearchSynapse'', query_string = ''alpha'', size_q = n, sort_type = None,
      earlier_than_timestamp = PNone, later_than_timestamp = PNone\<rparr>"

definition structured_query :: "SortType option \<Rightarrow> pyval \<Rightarrow> pyval \<Rightarrow> int \<Rightarrow> search_query" where
  "structured_query st e l n =
     \<lparr>name = ''StructuredSearchSynapse'', query_string = ''alpha'', size_q = n, sort_type = st,
      earlier_than_timestamp = e, later_than_timestamp = l\<rparr>"

definition three_hits :: "py_exception + pyval" where
  "three_hits = Inr (hits_response [hit (tweet 1), hit (tweet 2), hit (tweet 3)])"

definition store_down :: "py_exception + pyval" where
  "store_down = Inl (ExternalError ''connection refused'')"

definition ranker_down :: "pyval list \<Rightarrow> py_exception + pyval list" where
  "ranker_down items = Inl (ExternalError ''model unavailable'')"

definition malformed_tweet_no_id :: pyval where
  "malformed_tweet_no_id = PDict [(''text'', PStr ''alpha''), (''username'', PStr ''u'')]"

definition malformed_tweet :: pyval where
  "malformed_tweet = PDict [(''id'', PInt 2), (''text'', PStr ''alpha'')]"

section \<open>Auxiliary facts\<close>

lemma py_slice_to_nonneg: "0 \<le> n \<Longrightarrow> py_slice_to xs n = take (nat n) xs"
  by (simp add: py_slice_to_def)

lemma recall_returns: "\<exists>rs w1. recall self q n w = (Inr rs, w1)"
  by (simp add: recall_def split: prod.splits sum.splits)

lemma recall_on_store_failure:
  "client_search (search_client self) ''twitter'' (es_query_of q n) w = (Inl e, w1)
   \<Longrightarrow> recall self q n w = (Inr [], w1)"
  by (simp add: recall_def recall_try_def)

lemma build_bulk_body_pairs:
  "\<forall>d\<in>set docs. \<exists>i. py_getitem d ''id'' = Inr i
   \<Longrightarrow> build_bulk_body docs acc = Inr (acc @ concat (map upsert_pair docs))"
  by (induction docs arbitrary: acc) (auto simp: upsert_pair_def doc_id_def)

lemma build_bulk_body_missing_id:
  "d \<in> set docs \<Longrightarrow> py_getitem d ''id'' = Inl e
   \<Longrightarrow> \<exists>e'. build_bulk_body docs acc = Inl e'"
  by (induction docs arbitrary: acc) (auto split: sum.splits)

lemma crawl_and_index_data_returns_None: "fst (crawl_and_index_data self qs n w) = Inr ()"
  by (auto simp: crawl_and_index_data_def crawl_try_def Let_def
           split: prod.splits sum.splits option.splits)

lemma init_indices_cases:
  "indices_exists (search_client self) ''twitter'' w = (Inr ex, w1) \<Longrightarrow>
   init_indices self w =
     (if ex then (Inr (), w1)
      else (case indices_create (search_client self) ''twitter'' twitter_index_body w1 of
              (c, w2) \<Rightarrow> (case c of Inl e \<Rightarrow> Inl e | Inr _ \<Rightarrow> Inr (), w2)))"
  by (auto simp: init_indices_def Let_def split: prod.splits sum.splits)

lemma es_query_structured:
  "name q = ''StructuredSearchSynapse'' \<Longrightarrow>
   es_query_of q n =
     PDict ([(''query'', PDict [(''bool'', PDict [(''must'', PList
               ([query_string_clause (query_string q)]
                @ (if py_truthy (earlier_than_timestamp q) \<or> py_truthy (later_than_timestamp q)
                   then [PDict [(''range'', PDict [(''created_at'', PDict
                           ((if py_truthy (earlier_than_timestamp q)
                             then [(''lte'', earlier_than_timestamp q)] else [])
                            @ (if py_truthy (later_than_timestamp q)
                               then [(''gte'', later_than_timestamp q)] else [])))])]]
                   else [])))])]),
             (''size'', PInt n)]
            @ (if sort_type q = Some RECENCY
               then [(''sort'', PList [PDict [(''created_at'', PStr ''desc'')]])] else []))"
  by (simp add: es_query_of_def Let_def)

lemma es_query_basic:
  "name q \<noteq> ''StructuredSearchSynapse'' \<Longrightarrow>
   es_query_of q n =
     PDict [(''query'', PDict [(''bool'', PDict [(''must'', PList
               [query_string_clause (query_string q)])])]),
            (''size'', PInt n)]"
  by (simp add: es_query_of_def Let_def)

lemma project_fields_missing:
  "f \<in> set fs \<Longrightarrow> map_of src f = None \<Longrightarrow> \<exists>e. project_fields (PDict src) fs = Inl e"
  by (induction fs) (auto split: sum.splits option.splits)

lemma twitter_doc_mapper_missing:
  "f \<in> set doc_fields \<Longrightarrow> map_of src f = None \<Longrightarrow> \<exists>e. twitter_doc_mapper (PDict src) = Inl e"
  using project_fields_missing[of f doc_fields src] by (auto simp: twitter_doc_mapper_def)

lemma map_hits_malformed:
  "document \<in> set hits \<Longrightarrow> py_getitem document ''_source'' = Inr doc
   \<Longrightarrow> twitter_doc_mapper doc = Inl e \<Longrightarrow> \<exists>e'. map_hits hits acc = Inl e'"
  by (induction hits arbitrary: acc) (auto split: sum.splits)

lemma mapper_tweet: "twitter_doc_mapper (tweet i) = Inr (projected i)"
  by (simp add: twitter_doc_mapper_def doc_fields_def tweet_def projected_def)

lemma structured_query_fields:
  "name (structured_query st e l n) = ''StructuredSearchSynapse''"
  "query_string (structured_query st e l n) = ''alpha''"
  "size_q (structured_query st e l n) = n"
  "sort_type (structured_query st e l n) = st"
  "earlier_than_timestamp (structured_query st e l n) = e"
  "later_than_timestamp (structured_query st e l n) = l"
  by (simp_all add: structured_query_def)

lemma basic_query_fields:
  "name (basic_query n) = ''SearchSynapse''"
  "query_string (basic_query n) = ''alpha''"
  "size_q (basic_query n) = n"
  by (simp_all add: basic_query_def)

lemma index_created_append:
  "index_created n (w @ [Created n b])"
  by (induction n w rule: index_created.induct) simp_all

lemma test_engine_fields:
  "search_client (test_engine sr br rel cr) = logging_client sr br"
  "relevance_ranking_model (test_engine sr br rel cr) = logging_ranker ''relevance'' rel"
  "recency_ranking_model (test_engine sr br rel cr) = logging_ranker ''recency'' (\<lambda>items. Inr (rev items))"
  "recall_size (test_engine sr br rel cr) = 50"
  "twitter_crawler (test_engine sr br rel cr) = cr"
  by (simp_all add: test_engine_def)

lemma logging_client_fields:
  "indices_exists (logging_client sr br) n w = (Inr (index_created n w), w)"
  "indices_create (logging_client sr br) n b w =
     (if index_created n w then (Inl (ExternalError ''resource_already_exists''), w)
      else (Inr PNone, w @ [Created n b]))"
  "client_search (logging_client sr br) i q w = (sr, w @ [Searched i q])"
  "bulk (logging_client sr br) bb r w = (br, w @ [Bulked bb r])"
  by (simp_all add: logging_client_def)

lemmas fixture_simps =
  test_engine_fields logging_client_fields logging_ranker_def logging_crawler_def
  structured_query_fields basic_query_fields

lemma recall_three_hits:
  "recall (test_engine three_hits br rel cr) q 50 []
     = (Inr [projected 1, projected 2, projected 3], [Searched ''twitter'' (es_query_of q 50)])"
  by (simp add: recall_def recall_try_def fixture_simps three_hits_def hits_response_def
        hit_def mapper_tweet)

section \<open>The claims\<close>

text \<open>
  C1. For a request with a non-negative size, the list that \<open>search\<close> returns has at
  most \<open>size\<close> elements: it is the first \<open>size\<close> elements of what the selected
  ranking model returned for the recalled candidates.
\<close>

theorem search_truncates_to_size:
  assumes "0 \<le> size_q q" and "search self q w = (Inr rs, w')"
  shows "length rs \<le> nat (size_q q) \<and>
         (\<exists>items w1 ranked.
            recall self q (recall_size self) w = (Inr items, w1) \<and>
            (if name q = ''StructuredSearchSynapse'' \<and> sort_type q = Some RECENCY
             then recency_ranking_model self else relevance_ranking_model self)
              (query_string q) items w1 = (Inr ranked, w') \<and>
            rs = take (nat (size_q q)) ranked)"
  using assms
  by (auto simp: search_def Let_def py_slice_to_nonneg split: prod.splits sum.splits if_splits)

theorem search_truncates_to_size_witness:
  "0 \<le> size_q (structured_query (Some RECENCY) PNone PNone 2)
   \<and> search (test_engine three_hits (Inr PNone) Inr None)
        (structured_query (Some RECENCY) PNone PNone 2) []
      = (Inr [projected 3, projected 2],
         [Searched ''twitter'' (es_query_of (structured_query (Some RECENCY) PNone PNone 2) 50),
          Ranked ''recency'' ''alpha'' [projected 1, projected 2, projected 3]])
   \<and> length [projected 3, projected 2] \<le> nat (size_q (structured_query (Some RECENCY) PNone PNone 2))"
proof -
  let ?q = "structured_query (Some RECENCY) PNone PNone 2"
  have h1: "0 \<le> size_q ?q" by (simp add: fixture_simps)
  have h2: "search (test_engine three_hits (Inr PNone) Inr None) ?q []
      = (Inr [projected 3, projected 2],
         [Searched ''twitter'' (es_query_of ?q 50),
          Ranked ''recency'' ''alpha'' [projected 1, projected 2, projected 3]])"
    using recall_three_hits[of "Inr PNone" Inr None ?q]
    by (simp add: search_def fixture_simps py_slice_to_def)
  from search_truncates_to_size[OF h1 h2] h1 h2 show ?thesis by blast
qed

text \<open>
  C2. \<open>search\<close> ranks with the recency model exactly when the request is named
  \<^verbatim>\<open>StructuredSearchSynapse\<close> and its sort type is RECENCY, and with the supplied
  relevance model in every other case; the model that is not selected has no influence on
  the outcome. A basic request is therefore always ranked by relevance.
\<close>

theorem search_ranking_model_selection:
  assumes "recall self q (recall_size self) w = (Inr items, w1)"
  shows "(name q = ''StructuredSearchSynapse'' \<and> sort_type q = Some RECENCY \<longrightarrow>
            search self q w =
              (case recency_ranking_model self (query_string q) items w1 of
                 (rr, w2) \<Rightarrow> (map_sum id (\<lambda>results. py_slice_to results (size_q q)) rr, w2))
            \<and> search (self\<lparr>relevance_ranking_model := m\<rparr>) q w = search self q w)
       \<and> (\<not> (name q = ''StructuredSearchSynapse'' \<and> sort_type q = Some RECENCY) \<longrightarrow>
            search self q w =
              (case relevance_ranking_model self (query_string q) items w1 of
                 (rr, w2) \<Rightarrow> (map_sum id (\<lambda>results. py_slice_to results (size_q q)) rr, w2))
            \<and> search (self\<lparr>recency_ranking_model := m\<rparr>) q w = search self q w)
       \<and> (name q \<noteq> ''StructuredSearchSynapse'' \<longrightarrow>
            search self q w =
              (case relevance_ranking_model self (query_string q) items w1 of
                 (rr, w2) \<Rightarrow> (map_sum id (\<lambda>results. py_slice_to results (size_q q)) rr, w2)))"
  using assms
  by (auto simp: search_def recall_def recall_try_def Let_def split: prod.splits sum.splits)

theorem search_ranking_model_selection_witness:
  "search (test_engine three_hits (Inr PNone) Inr None) (basic_query 2) []
     = (Inr [projected 1, projected 2],
        [Searched ''twitter'' (es_query_of (basic_query 2) 50),
         Ranked ''relevance'' ''alpha'' [projected 1, projected 2, projected 3]])
   \<and> search (test_engine three_hits (Inr PNone) Inr None)
       (structured_query (Some RELEVANCE) PNone PNone 2) []
     = (Inr [projected 1, projected 2],
        [Searched ''twitter'' (es_query_of (structured_query (Some RELEVANCE) PNone PNone 2) 50),
         Ranked ''relevance'' ''alpha'' [projected 1, projected 2, projected 3]])
   \<and> search (test_engine three_hits (Inr PNone) Inr None)
       (structured_query (Some RECENCY) PNone PNone 2) []
     = (Inr [projected 3, projected 2],
        [Searched ''twitter'' (es_query_of (structured_query (Some RECENCY) PNone PNone 2) 50),
         Ranked ''recency'' ''alpha'' [projected 1, projected 2, projected 3]])"
proof -
  let ?e = "test_engine three_hits (Inr PNone) Inr None"
  have h: "recall ?e q (recall_size ?e) []
     = (Inr [projected 1, projected 2, projected 3], [Searched ''twitter'' (es_query_of q 50)])"
    for q
    using recall_three_hits[of "Inr PNone" Inr None q] by (simp add: fixture_simps)
  from search_ranking_model_selection[OF h, of "basic_query 2" "logging_ranker ''unused'' Inr"]
       search_ranking_model_selection[OF h, of "structured_query (Some RELEVANCE) PNone PNone 2"
         "logging_ranker ''unused'' Inr"]
       search_ranking_model_selection[OF h, of "structured_query (Some RECENCY) PNone PNone 2"
         "logging_ranker ''unused'' Inr"]
  show ?thesis
    by (simp add: fixture_simps py_slice_to_def)
qed

text \<open>
  C3, amended. \<open>recall\<close> never raises; when the store's query raises, \<open>recall\<close>
  returns the empty list, and \<open>search\<close> returns the empty list provided the selected
  ranking model returns the empty list for the empty candidate list. The ranking call is
  outside the guarded block, so a ranking model that raises still makes \<open>search\<close> raise,
  as the second theorem below shows on a store and a ranking model that both fail.
\<close>

theorem recall_absorbs_store_failure:
  assumes "client_search (search_client self) ''twitter'' (es_query_of q (recall_size self)) w
             = (Inl e, w1)"
  shows "recall self q (recall_size self) w = (Inr [], w1)
       \<and> (\<exists>rs w'. recall self q' n' w0 = (Inr rs, w'))
       \<and> ((if name q = ''StructuredSearchSynapse'' \<and> sort_type q = Some RECENCY
            then recency_ranking_model self else relevance_ranking_model self)
             (query_string q) [] w1 = (Inr [], w2)
          \<longrightarrow> search self q w = (Inr [], w2))"
  using recall_on_store_failure[OF assms] recall_returns[of self q' n' w0]
  by (auto simp: search_def Let_def py_slice_to_def)

theorem recall_absorbs_store_failure_witness:
  "client_search (search_client (test_engine store_down (Inr PNone) Inr None)) ''twitter''
     (es_query_of (basic_query 2) (recall_size (test_engine store_down (Inr PNone) Inr None))) []
     = (Inl (ExternalError ''connection refused''),
        [Searched ''twitter'' (es_query_of (basic_query 2) 50)])
   \<and> recall (test_engine store_down (Inr PNone) Inr None) (basic_query 2) 50 []
     = (Inr [], [Searched ''twitter'' (es_query_of (basic_query 2) 50)])
   \<and> search (test_engine store_down (Inr PNone) Inr None) (basic_query 2) []
     = (Inr [], [Searched ''twitter'' (es_query_of (basic_query 2) 50),
                 Ranked ''relevance'' ''alpha'' []])"
proof -
  let ?e = "test_engine store_down (Inr PNone) Inr None"
  let ?w1 = "[Searched ''twitter'' (es_query_of (basic_query 2) 50)]"
  have h: "client_search (search_client ?e) ''twitter''
             (es_query_of (basic_query 2) (recall_size ?e)) []
           = (Inl (ExternalError ''connection refused''), ?w1)"
    by (simp add: fixture_simps store_down_def)
  have r: "(if name (basic_query 2) = ''StructuredSearchSynapse''
               \<and> sort_type (basic_query 2) = Some RECENCY
            then recency_ranking_model ?e else relevance_ranking_model ?e)
             (query_string (basic_query 2)) [] ?w1
           = (Inr [], ?w1 @ [Ranked ''relevance'' ''alpha'' []])"
    by (simp add: fixture_simps)
  from recall_absorbs_store_failure[OF h, of "basic_query 2" 50 "[]"
         "?w1 @ [Ranked ''relevance'' ''alpha'' []]"] r h
  show ?thesis by (simp add: fixture_simps)
qed

theorem store_and_ranking_failure_counterexample:
  "fst (client_search (search_client (test_engine store_down (Inr PNone) ranker_down None))
          ''twitter''
          (es_query_of (basic_query 2)
             (recall_size (test_engine store_down (Inr PNone) ranker_down None))) [])
     = Inl (ExternalError ''connection refused'')
   \<and> fst (search (test_engine store_down (Inr PNone) ranker_down None) (basic_query 2) [])
     = Inl (ExternalError ''model unavailable'')"
  by (simp add: search_def recall_def recall_try_def fixture_simps store_down_def ranker_down_def)

text \<open>
  C4, amended. For a structured request the query has a range filter on
  \<^verbatim>\<open>created_at\<close>, appended to the must clauses, with \<^verbatim>\<open>lte\<close> for a truthy
  \<open>earlier_than_timestamp\<close> and \<^verbatim>\<open>gte\<close> for a truthy
  \<open>later_than_timestamp\<close>; when neither bound is truthy there is no range filter. A
  basic request never gets one. The bounds are tested by truthiness: a declared bound of
  0 adds nothing, which the counterexample below shows.
\<close>

theorem range_filter_on_truthy_bounds:
  "(name q = ''StructuredSearchSynapse'' \<longrightarrow>
     es_query_of q n =
       PDict ([(''query'', PDict [(''bool'', PDict [(''must'', PList
                 ([query_string_clause (query_string q)]
                  @ (if py_truthy (earlier_than_timestamp q) \<or> py_truthy (later_than_timestamp q)
                     then [PDict [(''range'', PDict [(''created_at'', PDict
                             ((if py_truthy (earlier_than_timestamp q)
                               then [(''lte'', earlier_than_timestamp q)] else [])
                              @ (if py_truthy (later_than_timestamp q)
                                 then [(''gte'', later_than_timestamp q)] else [])))])]]
                     else [])))])]),
               (''size'', PInt n)]
              @ (if sort_type q = Some RECENCY
                 then [(''sort'', PList [PDict [(''created_at'', PStr ''desc'')]])] else [])))
   \<and> (name q \<noteq> ''StructuredSearchSynapse'' \<longrightarrow>
     es_query_of q n =
       PDict [(''query'', PDict [(''bool'', PDict [(''must'', PList
                 [query_string_clause (query_string q)])])]),
              (''size'', PInt n)])"
  using es_query_structured[of q n] es_query_basic[of q n] by blast

theorem range_filter_on_truthy_bounds_witness:
  "es_query_of (structured_query None (PInt 200) (PInt 100) 2) 50 =
     PDict [(''query'', PDict [(''bool'', PDict [(''must'', PList
              [query_string_clause ''alpha'',
               PDict [(''range'', PDict [(''created_at'',
                  PDict [(''lte'', PInt 200), (''gte'', PInt 100)])])]])])]),
            (''size'', PInt 50)]
   \<and> es_query_of (structured_query None PNone PNone 2) 50 =
     PDict [(''query'', PDict [(''bool'', PDict [(''must'', PList
              [query_string_clause ''alpha''])])]),
            (''size'', PInt 50)]
   \<and> es_query_of ((basic_query 2)\<lparr>earlier_than_timestamp := PInt 200\<rparr>) 50 =
     PDict [(''query'', PDict [(''bool'', PDict [(''must'', PList
              [query_string_clause ''alpha''])])]),
            (''size'', PInt 50)]"
  using range_filter_on_truthy_bounds[of "structured_query None (PInt 200) (PInt 100) 2" 50]
        range_filter_on_truthy_bounds[of "structured_query None PNone PNone 2" 50]
        range_filter_on_truthy_bounds[of "(basic_query 2)\<lparr>earlier_than_timestamp := PInt 200\<rparr>" 50]
  by (simp add: fixture_simps basic_query_def)

theorem declared_zero_bound_counterexample:
  "name (structured_query None (PInt 0) PNone 2) = ''StructuredSearchSynapse''
   \<and> earlier_than_timestamp (structured_query None (PInt 0) PNone 2) = PInt 0
   \<and> es_query_of (structured_query None (PInt 0) PNone 2) 50 =
     PDict [(''query'', PDict [(''bool'', PDict [(''must'', PList
              [query_string_clause ''alpha''])])]),
            (''size'', PInt 50)]"
  by (simp add: es_query_of_def fixture_simps)

text \<open>
  C5. With no crawler configured, \<open>crawl_and_index_data\<close> returns None without raising
  and leaves the outside world as it was: no call reaches the store. (The attribute lookup
  on None raises inside the first guarded block, which turns it into an empty batch.)
\<close>

theorem no_crawler_is_noop:
  assumes "twitter_crawler self = None"
  shows "crawl_and_index_data self qs max_size w = (Inr (), w)"
  using assms by (simp add: crawl_and_index_data_def crawl_try_def)

theorem no_crawler_is_noop_witness:
  "twitter_crawler (test_engine three_hits store_down Inr None) = None
   \<and> crawl_and_index_data (test_engine three_hits store_down Inr None) ''alpha'' 10 []
       = (Inr (), [])"
proof -
  have h: "twitter_crawler (test_engine three_hits store_down Inr None) = None"
    by (simp add: fixture_simps)
  from no_crawler_is_noop[OF h] h show ?thesis by simp
qed

text \<open>
  C6, amended. \<open>crawl_and_index_data\<close> never raises and returns None, whatever the
  crawler and the store do. When the crawler returns a non-empty list of documents that
  each have an id, the bulk call is made once, with refresh set, on the body that pairs,
  for each document in order, the update directive keyed by its id with the upsert body;
  the outcome of the bulk call, a response or an exception, does not change the result.
  When a document of the batch has no id, the subscript \<^verbatim>\<open>doc["id"]\<close> raises inside
  the guarded block while the body is being built, and no bulk call is made for any
  document of the batch, which the counterexample below shows.
\<close>

theorem bulk_upsert_of_crawled_batch:
  "fst (crawl_and_index_data self qs n w) = Inr ()
   \<and> (twitter_crawler self = Some crawl \<and> crawl qs n w = (Inr (PList docs), w1)
        \<and> docs \<noteq> [] \<and> (\<forall>d\<in>set docs. \<exists>i. py_getitem d ''id'' = Inr i)
      \<longrightarrow> crawl_and_index_data self qs n w
            = (Inr (), snd (bulk (search_client self)
                              (PList (concat (map upsert_pair docs))) True w1)))
   \<and> (twitter_crawler self = Some crawl \<and> crawl qs n w = (Inr (PList docs), w1)
        \<and> (\<exists>d\<in>set docs. \<exists>e. py_getitem d ''id'' = Inl e)
      \<longrightarrow> crawl_and_index_data self qs n w = (Inr (), w1))"
proof -
  have c1: "fst (crawl_and_index_data self qs n w) = Inr ()"
    by (rule crawl_and_index_data_returns_None)
  have c2: "crawl_and_index_data self qs n w
            = (Inr (), snd (bulk (search_client self)
                              (PList (concat (map upsert_pair docs))) True w1))"
    if "twitter_crawler self = Some crawl" "crawl qs n w = (Inr (PList docs), w1)"
       "docs \<noteq> []" "\<forall>d\<in>set docs. \<exists>i. py_getitem d ''id'' = Inr i"
    using that
    by (auto simp: crawl_and_index_data_def crawl_try_def bulk_try_def Let_def
          build_bulk_body_pairs split: prod.splits sum.splits)
  have c3: "crawl_and_index_data self qs n w = (Inr (), w1)"
    if a: "twitter_crawler self = Some crawl" "crawl qs n w = (Inr (PList docs), w1)"
      and b: "\<exists>d\<in>set docs. \<exists>e. py_getitem d ''id'' = Inl e"
  proof -
    from b obtain d e where "d \<in> set docs" "py_getitem d ''id'' = Inl e" by blast
    from build_bulk_body_missing_id[OF this, of "[]"]
    obtain e' where "build_bulk_body docs [] = Inl e'" by blast
    with a show ?thesis
      by (simp add: crawl_and_index_data_def crawl_try_def bulk_try_def)
  qed
  from c1 c2 c3 show ?thesis by blast
qed

theorem bulk_upsert_of_crawled_batch_witness:
  "crawl_and_index_data
     (test_engine three_hits (Inr (PDict [(''errors'', PBool False)])) Inr
        (Some (logging_crawler (Inr (PList [tweet 1, tweet 2])))))
     ''alpha'' 10 []
   = (Inr (),
      [Crawled ''alpha'' 10,
       Bulked (PList
         [PDict [(''update'', PDict [(''_index'', PStr ''twitter''), (''_id'', PInt 1)])],
          PDict [(''doc'', tweet 1), (''doc_as_upsert'', PBool True)],
          PDict [(''update'', PDict [(''_index'', PStr ''twitter''), (''_id'', PInt 2)])],
          PDict [(''doc'', tweet 2), (''doc_as_upsert'', PBool True)]]) True])
   \<and> crawl_and_index_data
     (test_engine three_hits store_down Inr
        (Some (logging_crawler (Inr (PList [tweet 1])))))
     ''alpha'' 10 []
   = (Inr (),
      [Crawled ''alpha'' 10,
       Bulked (PList
         [PDict [(''update'', PDict [(''_index'', PStr ''twitter''), (''_id'', PInt 1)])],
          PDict [(''doc'', tweet 1), (''doc_as_upsert'', PBool True)]]) True])"
proof -
  have ids: "\<forall>d\<in>set [tweet 1, tweet 2]. \<exists>i. py_getitem d ''id'' = Inr i"
            "\<forall>d\<in>set [tweet 1]. \<exists>i. py_getitem d ''id'' = Inr i"
    by (simp_all add: tweet_def)
  have did: "doc_id (tweet i) = PInt i" for i
    by (simp add: doc_id_def tweet_def)
  from bulk_upsert_of_crawled_batch[of
         "test_engine three_hits (Inr (PDict [(''errors'', PBool False)])) Inr
            (Some (logging_crawler (Inr (PList [tweet 1, tweet 2]))))"
         "''alpha''" 10 "[]" "logging_crawler (Inr (PList [tweet 1, tweet 2]))"
         "[tweet 1, tweet 2]" "[Crawled ''alpha'' 10]"]
       bulk_upsert_of_crawled_batch[of
         "test_engine three_hits store_down Inr (Some (logging_crawler (Inr (PList [tweet 1]))))"
         "''alpha''" 10 "[]" "logging_crawler (Inr (PList [tweet 1]))"
         "[tweet 1]" "[Crawled ''alpha'' 10]"]
       ids
  show ?thesis
    by (simp add: fixture_simps upsert_pair_def did)
qed

theorem document_without_id_counterexample:
  "py_len (PList [tweet 1, malformed_tweet_no_id, tweet 3]) = Inr 3
   \<and> crawl_and_index_data
       (test_engine three_hits (Inr (PDict [(''errors'', PBool False)])) Inr
          (Some (logging_crawler (Inr (PList [tweet 1, malformed_tweet_no_id, tweet 3])))))
       ''alpha'' 10 []
     = (Inr (), [Crawled ''alpha'' 10])"
  by (simp add: crawl_and_index_data_def crawl_try_def bulk_try_def fixture_simps
        tweet_def malformed_tweet_no_id_def)

text \<open>
  C7. When the selected ranking model raises, \<open>search\<close> raises the same exception: the
  ranking call is not guarded.
\<close>

theorem ranking_fault_propagates:
  assumes "recall self q (recall_size self) w = (Inr items, w1)"
    and "(if name q = ''StructuredSearchSynapse'' \<and> sort_type q = Some RECENCY
          then recency_ranking_model self else relevance_ranking_model self)
           (query_string q) items w1 = (Inl e, w2)"
  shows "search self q w = (Inl e, w2)"
  using assms by (auto simp: search_def Let_def split: if_splits)

theorem ranking_fault_propagates_witness:
  "search (test_engine three_hits (Inr PNone) ranker_down None) (basic_query 2) []
     = (Inl (ExternalError ''model unavailable''),
        [Searched ''twitter'' (es_query_of (basic_query 2) 50),
         Ranked ''relevance'' ''alpha'' [projected 1, projected 2, projected 3]])"
proof -
  let ?e = "test_engine three_hits (Inr PNone) ranker_down None"
  have h: "recall ?e (basic_query 2) (recall_size ?e) []
     = (Inr [projected 1, projected 2, projected 3],
        [Searched ''twitter'' (es_query_of (basic_query 2) 50)])"
    using recall_three_hits[of "Inr PNone" ranker_down None "basic_query 2"]
    by (simp add: fixture_simps)
  show ?thesis
    by (rule ranking_fault_propagates[OF h]) (simp add: fixture_simps ranker_down_def)
qed

text \<open>
  C8. \<open>init_indices\<close> creates the index \<^verbatim>\<open>twitter\<close>, with the mapping of the
  nine document fields, only when the store reports that it does not exist; when it
  exists, nothing is created and nothing is raised. On a store whose existence check
  changes nothing and reports an index once it has been created, a second run after a
  successful one leaves the store as it is.
\<close>

theorem init_indices_idempotent:
  assumes read_only: "\<And>n w. snd (indices_exists (search_client self) n w) = w"
    and created: "\<And>b w r w2. indices_create (search_client self) ''twitter'' b w = (Inr r, w2)
                   \<Longrightarrow> fst (indices_exists (search_client self) ''twitter'' w2) = Inr True"
  shows "(fst (indices_exists (search_client self) ''twitter'' w) = Inr True
            \<longrightarrow> init_indices self w = (Inr (), w))
       \<and> (fst (indices_exists (search_client self) ''twitter'' w) = Inr False
            \<longrightarrow> init_indices self w =
                 (case indices_create (search_client self) ''twitter'' twitter_index_body w of
                    (c, w2) \<Rightarrow> (case c of Inl e \<Rightarrow> Inl e | Inr _ \<Rightarrow> Inr (), w2)))
       \<and> (\<exists>props. twitter_index_body = PDict [(''mappings'', PDict [(''properties'', PDict props)])]
                  \<and> map fst props = doc_fields)
       \<and> (init_indices self w = (Inr (), w') \<longrightarrow> init_indices self w' = (Inr (), w'))"
proof -
  have ex: "indices_exists (search_client self) ''twitter'' v
              = (fst (indices_exists (search_client self) ''twitter'' v), v)" for v
    using read_only[of "''twitter''" v] by (metis prod.collapse)
  have c1: "fst (indices_exists (search_client self) ''twitter'' v) = Inr True
            \<Longrightarrow> init_indices self v = (Inr (), v)" for v
    using init_indices_cases[of self v True v] ex[of v] by simp
  have c2: "fst (indices_exists (search_client self) ''twitter'' v) = Inr False
            \<Longrightarrow> init_indices self v =
                 (case indices_create (search_client self) ''twitter'' twitter_index_body v of
                    (c, w2) \<Rightarrow> (case c of Inl e \<Rightarrow> Inl e | Inr _ \<Rightarrow> Inr (), w2))" for v
    using init_indices_cases[of self v False v] ex[of v] by simp
  have c3: "\<exists>props. twitter_index_body = PDict [(''mappings'', PDict [(''properties'', PDict props)])]
                  \<and> map fst props = doc_fields"
    by (simp add: twitter_index_body_def doc_fields_def)
  have c4: "init_indices self w' = (Inr (), w')" if run: "init_indices self w = (Inr (), w')"
  proof (cases "fst (indices_exists (search_client self) ''twitter'' w)")
    case (Inl e)
    then have "fst (init_indices self w) = Inl e"
      using ex[of w] by (simp add: init_indices_def Let_def split: prod.splits)
    with run show ?thesis by simp
  next
    case (Inr b)
    show ?thesis
    proof (cases b)
      case True
      with Inr c1[of w] run show ?thesis by simp
    next
      case False
      with Inr c2[of w] run
      obtain r where "indices_create (search_client self) ''twitter'' twitter_index_body w = (Inr r, w')"
        by (auto split: prod.splits sum.splits)
      from created[OF this] c1[of w'] show ?thesis by simp
    qed
  qed
  from c1 c2 c3 c4 show ?thesis by blast
qed

theorem init_indices_idempotent_witness:
  "init_indices (test_engine three_hits (Inr PNone) Inr None) []
     = (Inr (), [Created ''twitter'' twitter_index_body])
   \<and> init_indices (test_engine three_hits (Inr PNone) Inr None)
       [Created ''twitter'' twitter_index_body]
     = (Inr (), [Created ''twitter'' twitter_index_body])"
proof -
  let ?e = "test_engine three_hits (Inr PNone) Inr None"
  have ro: "\<And>n w. snd (indices_exists (search_client ?e) n w) = w"
    by (simp add: fixture_simps)
  have cr: "\<And>b w r w2. indices_create (search_client ?e) ''twitter'' b w = (Inr r, w2)
             \<Longrightarrow> fst (indices_exists (search_client ?e) ''twitter'' w2) = Inr True"
    by (auto simp: fixture_simps index_created_append split: if_splits)
  from init_indices_idempotent[where self = ?e and w = "[]"
         and w' = "[Created ''twitter'' twitter_index_body]", OF ro cr]
  show ?thesis by (simp add: fixture_simps)
qed

text \<open>
  C9. The time bounds are tested by truthiness: for a structured request a falsy bound,
  such as 0, gives the same query, and so the same recall, as an absent one.
\<close>

theorem falsy_bound_is_absent:
  assumes "name q = ''StructuredSearchSynapse''" and "\<not> py_truthy t"
  shows "es_query_of (q\<lparr>earlier_than_timestamp := t\<rparr>) n
           = es_query_of (q\<lparr>earlier_than_timestamp := PNone\<rparr>) n
       \<and> es_query_of (q\<lparr>later_than_timestamp := t\<rparr>) n
           = es_query_of (q\<lparr>later_than_timestamp := PNone\<rparr>) n
       \<and> recall self (q\<lparr>earlier_than_timestamp := t\<rparr>) n w
           = recall self (q\<lparr>earlier_than_timestamp := PNone\<rparr>) n w
       \<and> recall self (q\<lparr>later_than_timestamp := t\<rparr>) n w
           = recall self (q\<lparr>later_than_timestamp := PNone\<rparr>) n w"
  using assms by (simp add: recall_def es_query_of_def Let_def)

theorem falsy_bound_is_absent_witness:
  "name (structured_query None PNone (PInt 100) 2) = ''StructuredSearchSynapse''
   \<and> \<not> py_truthy (PInt 0)
   \<and> es_query_of (structured_query None (PInt 0) (PInt 100) 2) 50
       = es_query_of (structured_query None PNone (PInt 100) 2) 50
   \<and> recall (test_engine three_hits (Inr PNone) Inr None)
         (structured_query None (PInt 0) (PInt 100) 2) 50 []
       = recall (test_engine three_hits (Inr PNone) Inr None)
           (structured_query None PNone (PInt 100) 2) 50 []"
proof -
  let ?q = "structured_query None PNone (PInt 100) 2"
  have h1: "name ?q = ''StructuredSearchSynapse''" by (simp add: fixture_simps)
  have h2: "\<not> py_truthy (PInt 0)" by simp
  have u: "?q\<lparr>earlier_than_timestamp := PInt 0\<rparr> = structured_query None (PInt 0) (PInt 100) 2"
          "?q\<lparr>earlier_than_timestamp := PNone\<rparr> = ?q"
    by (simp_all add: structured_query_def)
  from falsy_bound_is_absent[OF h1 h2, of 50 "test_engine three_hits (Inr PNone) Inr None" "[]"]
    h1 h2 show ?thesis
    unfolding u by blast
qed

text \<open>
  C10. If one hit of the store's response has a \<^verbatim>\<open>_source\<close> that lacks one of the
  nine projected fields, \<open>recall\<close> returns the empty list: the well-formed hits of the
  same response are dropped with it.
\<close>

theorem malformed_hit_discards_all:
  assumes "client_search (search_client self) ''twitter'' (es_query_of q n) w = (Inr response, w1)"
    and "py_getitem response ''hits'' = Inr h"
    and "py_getitem h ''hits'' = Inr (PList hits)"
    and "document \<in> set hits"
    and "py_getitem document ''_source'' = Inr (PDict src)"
    and "f \<in> set doc_fields"
    and "map_of src f = None"
  shows "recall self q n w = (Inr [], w1)"
proof -
  from twitter_doc_mapper_missing[OF assms(6,7)]
  obtain e where "twitter_doc_mapper (PDict src) = Inl e" by blast
  from map_hits_malformed[OF assms(4,5) this, of "[]"]
  obtain e' where "map_hits hits [] = Inl e'" by blast
  moreover from assms(4) have "hits \<noteq> []" by auto
  ultimately show ?thesis
    using assms(1-3) by (simp add: recall_def recall_try_def)
qed

theorem malformed_hit_discards_all_witness:
  "recall (test_engine (Inr (hits_response [hit (tweet 1), hit malformed_tweet, hit (tweet 3)]))
             (Inr PNone) Inr None) (basic_query 2) 50 []
     = (Inr [], [Searched ''twitter'' (es_query_of (basic_query 2) 50)])
   \<and> recall (test_engine (Inr (hits_response [hit (tweet 1), hit (tweet 3)]))
             (Inr PNone) Inr None) (basic_query 2) 50 []
     = (Inr [projected 1, projected 3], [Searched ''twitter'' (es_query_of (basic_query 2) 50)])"
proof -
  let ?hits = "[hit (tweet 1), hit malformed_tweet, hit (tweet 3)]"
  let ?e = "test_engine (Inr (hits_response ?hits)) (Inr PNone) Inr None"
  have a1: "client_search (search_client ?e) ''twitter'' (es_query_of (basic_query 2) 50) []
            = (Inr (hits_response ?hits), [Searched ''twitter'' (es_query_of (basic_query 2) 50)])"
    by (simp add: fixture_simps)
  have a2: "py_getitem (hits_response ?hits) ''hits'' = Inr (PDict [(''hits'', PList ?hits)])"
    by (simp add: hits_response_def)
  have a3: "py_getitem (PDict [(''hits'', PList ?hits)]) ''hits'' = Inr (PList ?hits)"
    by simp
  have a4: "hit malformed_tweet \<in> set ?hits" by simp
  have a5: "py_getitem (hit malformed_tweet) ''_source''
            = Inr (PDict [(''id'', PInt 2), (''text'', PStr ''alpha'')])"
    by (simp add: hit_def malformed_tweet_def)
  have a6: "''created_at'' \<in> set doc_fields" by (simp add: doc_fields_def)
  have a7: "map_of [(''id'', PInt 2), (''text'', PStr ''alpha'')] ''created_at'' = None"
    by simp
  have good: "recall (test_engine (Inr (hits_response [hit (tweet 1), hit (tweet 3)]))
             (Inr PNone) Inr None) (basic_query 2) 50 []
     = (Inr [projected 1, projected 3], [Searched ''twitter'' (es_query_of (basic_query 2) 50)])"
    by (simp add: recall_def recall_try_def fixture_simps hits_response_def hit_def mapper_tweet)
  from malformed_hit_discards_all[OF a1 a2 a3 a4 a5 a6 a7] good show ?thesis by simp
qed

end
